theory Spec2Isabelle
  imports Complex_Main
begin

section \<open>The bank reconciliation page: data\<close>

text \<open>
  The page \<^verbatim>\<open>bank_reconciliation.js\<close> keeps a list of Bank Transaction rows, shows each
  with a badge, and for one of them looks up invoices that could settle it.
\<close>

text \<open>A Bank Transaction row, with the fields \<^verbatim>\<open>load_transactions\<close> requests.\<close>

record bank_transaction =
  name :: string
  date :: string
  description :: string
  deposit :: real
  withdrawal :: real
  unallocated_amount :: real
  status :: string
  party_type :: string
  party :: string
  reference_number :: string

text \<open>The two document types \<^verbatim>\<open>load_match_suggestions\<close> searches.\<close>

datatype doctype = Sales_Invoice | Purchase_Invoice

text \<open>
  An invoice row, with the fields \<^verbatim>\<open>load_match_suggestions\<close> requests. A Sales Invoice
  has a customer and a Purchase Invoice a supplier; the field a row lacks is \<open>None\<close>.
\<close>

record invoice =
  doc_name :: string
  grand_total :: real
  outstanding_amount :: real
  customer :: "string option"
  supplier :: "string option"
  posting_date :: string

text \<open>
  The arguments of a list query (\<^verbatim>\<open>frappe.client.get_list\<close>) as the page writes them:
  the document type, the filters as field/condition pairs in the order of the source, the
  requested fields, and the keys \<^verbatim>\<open>order_by\<close>, \<^verbatim>\<open>limit\<close> and \<^verbatim>\<open>limit_page_length\<close>,
  each \<open>None\<close> when the call does not carry it.
\<close>

datatype invoice_field = Outstanding_amount | Grand_total

datatype condition = Greater real | Between real real

record get_list_args =
  doctype :: doctype
  filters :: "(invoice_field \<times> condition) list"
  requested_fields :: "string list"
  order_by :: "string option"
  limit :: "nat option"
  limit_page_length :: "nat option"

text \<open>
  One entry of the suggestion list: the \<^verbatim>\<open>data-doctype\<close> and \<^verbatim>\<open>data-name\<close> attributes
  a click hands to \<^verbatim>\<open>match_to_document\<close>, the party shown
  (\<^verbatim>\<open>doc.customer || doc.supplier\<close>) and the row whose date and amounts are shown.
\<close>

record match_suggestion =
  data_doctype :: doctype
  data_name :: string
  shown_party :: "string option"
  shown_doc :: invoice

text \<open>
  The content of the \<^verbatim>\<open>#match-suggestions\<close> panel: the list of entries, or the line
  "No matching documents found".
\<close>

datatype panel = Suggestions "match_suggestion list" | No_matching_documents

text \<open>The four figures of the summary bar.\<close>

record summary =
  total_deposits :: real
  total_withdrawals :: real
  unreconciled_count :: nat
  auto_matched :: nat




text \<open>
  The state the page works on: the reconciler object (\<^verbatim>\<open>this.transactions\<close>,
  \<^verbatim>\<open>this.currentFilter\<close>, \<^verbatim>\<open>this.currentTransaction\<close>), the two panels it writes, and
  the server's tables it reads (the Bank Transaction rows and the invoices of each
  document type).
\<close>

record system =
  transactions :: "bank_transaction list"
  currentFilter :: string
  currentTransaction :: "bank_transaction option"
  match_suggestions :: panel
  summary_bar :: summary
  server_transactions :: "bank_transaction list"
  invoices :: "doctype \<Rightarrow> invoice list"

text \<open>
  The failure the specification names for a malformed transaction. The page's source
  raises it nowhere: no path of \<^verbatim>\<open>load_match_suggestions\<close> throws or returns early.
\<close>

datatype error = InvalidTransactionError

section \<open>JavaScript numbers\<close>

text \<open>
  A JavaScript number is an IEEE 754 double. A finite double is modelled by the real it
  denotes, and an arithmetic operation by the exact operation followed by rounding to the
  nearest double, ties to the even significand. \<open>ulp_exponent x\<close> is the exponent of the
  unit in the last place at \<open>x\<close>: 52 below the binary exponent of \<open>x\<close>, which is at
  least \<open>-1022\<close> (below that the doubles are subnormal and equally spaced). A result
  beyond the largest double is outside the model; the amounts of bank transactions are
  currency values far inside the range.
\<close>

definition round_half_even :: "real \<Rightarrow> int" where
  "round_half_even q =
     (if q - of_int \<lfloor>q\<rfloor> < 1 / 2 then \<lfloor>q\<rfloor>
      else if 1 / 2 < q - of_int \<lfloor>q\<rfloor> then \<lfloor>q\<rfloor> + 1
      else if even \<lfloor>q\<rfloor> then \<lfloor>q\<rfloor> else \<lfloor>q\<rfloor> + 1)"

definition ulp_exponent :: "real \<Rightarrow> int" where
  "ulp_exponent x = max \<lfloor>log 2 \<bar>x\<bar>\<rfloor> (- 1022) - 52"

definition to_double :: "real \<Rightarrow> real" where
  "to_double x =
     (if x = 0 then 0
      else of_int (round_half_even (x / power_int 2 (ulp_exponent x)))
             * power_int 2 (ulp_exponent x))"

text \<open>The operators \<^verbatim>\<open>*\<close> and \<^verbatim>\<open>+\<close> on two doubles.\<close>

definition js_times :: "real \<Rightarrow> real \<Rightarrow> real" where
  "js_times x y = to_double (x * y)"

definition js_plus :: "real \<Rightarrow> real \<Rightarrow> real" where
  "js_plus x y = to_double (x + y)"

text \<open>
  The two products of line 435, \<^verbatim>\<open>amount * 0.95\<close> and \<^verbatim>\<open>amount * 1.05\<close>: each literal
  is the double nearest to the decimal written.
\<close>

definition times_0_95 :: "real \<Rightarrow> real" where
  "times_0_95 a = js_times a (to_double 0.95)"

definition times_1_05 :: "real \<Rightarrow> real" where
  "times_1_05 a = js_times a (to_double 1.05)"

section \<open>The bank reconciliation page: operations\<close>

text \<open>
  The three local constants \<^verbatim>\<open>load_match_suggestions\<close> computes first (lines 423-427):
  \<^verbatim>\<open>isDeposit = txn.deposit > 0\<close>, \<^verbatim>\<open>amount = isDeposit ? txn.deposit : txn.withdrawal\<close>,
  \<^verbatim>\<open>doctype = isDeposit ? 'Sales Invoice' : 'Purchase Invoice'\<close>.
\<close>

definition isDeposit :: "bank_transaction \<Rightarrow> bool" where
  "isDeposit txn = (deposit txn > 0)"

definition amount :: "bank_transaction \<Rightarrow> real" where
  "amount txn = (if isDeposit txn then deposit txn else withdrawal txn)"

definition search_doctype :: "bank_transaction \<Rightarrow> doctype" where
  "search_doctype txn = (if isDeposit txn then Sales_Invoice else Purchase_Invoice)"

text \<open>
  The query of lines 429-439. It carries \<^verbatim>\<open>limit: 10\<close>, no \<^verbatim>\<open>limit_page_length\<close> and no
  \<^verbatim>\<open>order_by\<close>.
\<close>

definition suggestion_query :: "bank_transaction \<Rightarrow> get_list_args" where
  "suggestion_query txn =
     \<lparr>doctype = search_doctype txn,
      filters = [(Outstanding_amount, Greater 0),
                 (Grand_total, Between (times_0_95 (amount txn)) (times_1_05 (amount txn)))],
      requested_fields = [''name'', ''grand_total'', ''outstanding_amount'', ''customer'', ''supplier'',
                ''posting_date''],
      order_by = None,
      limit = Some 10,
      limit_page_length = None\<rparr>"

text \<open>
  What the filters of a query ask of a row: \<^verbatim>\<open>['>', b]\<close> that the field exceeds
  \<open>b\<close>, \<^verbatim>\<open>['between', [lo, hi]]\<close> that it lies between the two, ends included; a row
  passes when it meets every filter.
\<close>

fun field_value :: "invoice_field \<Rightarrow> invoice \<Rightarrow> real" where
  "field_value Outstanding_amount d = outstanding_amount d"
| "field_value Grand_total d = grand_total d"

fun satisfies :: "condition \<Rightarrow> real \<Rightarrow> bool" where
  "satisfies (Greater b) v = (b < v)"
| "satisfies (Between lo hi) v = (lo \<le> v \<and> v \<le> hi)"

definition matches_filters :: "(invoice_field \<times> condition) list \<Rightarrow> invoice \<Rightarrow> bool" where
  "matches_filters fs d = list_all (\<lambda>(f, c). satisfies c (field_value f d)) fs"

text \<open>The callback of lines 440-473: one entry per returned row, in order, or the empty notice.\<close>

definition js_or :: "string option \<Rightarrow> string option \<Rightarrow> string option" where
  "js_or a b = (case a of None \<Rightarrow> b | Some x \<Rightarrow> (if x = [] then b else Some x))"

definition render_suggestion :: "doctype \<Rightarrow> invoice \<Rightarrow> match_suggestion" where
  "render_suggestion dt d =
     \<lparr>data_doctype = dt, data_name = doc_name d,
      shown_party = js_or (customer d) (supplier d), shown_doc = d\<rparr>"

definition render_message :: "doctype \<Rightarrow> invoice list \<Rightarrow> panel" where
  "render_message dt message =
     (if message \<noteq> [] then Suggestions (map (render_suggestion dt) message)
      else No_matching_documents)"

text \<open>
  \<^verbatim>\<open>load_match_suggestions\<close> (lines 421-475). The server's list method is not part of the
  page: it is the parameter \<open>get_list\<close>, which reads the server's tables and answers a
  query with the rows of \<^verbatim>\<open>r.message\<close>. The page sends the query and renders the answer.
\<close>

definition load_match_suggestions ::
    "((doctype \<Rightarrow> invoice list) \<Rightarrow> get_list_args \<Rightarrow> invoice list)
       \<Rightarrow> bank_transaction \<Rightarrow> system \<Rightarrow> error + system" where
  "load_match_suggestions get_list txn s =
     Inr (s\<lparr>match_suggestions :=
            render_message (search_doctype txn) (get_list (invoices s) (suggestion_query txn))\<rparr>)"

text \<open>What the panel offers for selection: its entries, none under the empty notice.\<close>

fun entries :: "panel \<Rightarrow> match_suggestion list" where
  "entries (Suggestions xs) = xs"
| "entries No_matching_documents = []"

text \<open>The proposals a lookup offers: the entries of the panel it leaves, none if it failed.\<close>

definition offered ::
    "((doctype \<Rightarrow> invoice list) \<Rightarrow> get_list_args \<Rightarrow> invoice list)
       \<Rightarrow> bank_transaction \<Rightarrow> system \<Rightarrow> match_suggestion list" where
  "offered get_list txn s =
     (case load_match_suggestions get_list txn s of
        Inl e \<Rightarrow> []
      | Inr s' \<Rightarrow> entries (match_suggestions s'))"







text \<open>
  \<^verbatim>\<open>update_summary\<close> (lines 385-395): two sums by \<^verbatim>\<open>reduce\<close>, where \<^verbatim>\<open>t.deposit || 0\<close>
  reads a zero as zero, and two counts by \<^verbatim>\<open>filter(...).length\<close>.
\<close>

definition or_zero :: "real \<Rightarrow> real" where
  "or_zero v = (if v = 0 then 0 else v)"

definition update_summary :: "system \<Rightarrow> system" where
  "update_summary s =
     s\<lparr>summary_bar :=
         \<lparr>total_deposits = foldl (\<lambda>sum t. js_plus sum (or_zero (deposit t))) 0 (transactions s),
          total_withdrawals =
            foldl (\<lambda>sum t. js_plus sum (or_zero (withdrawal t))) 0 (transactions s),
          unreconciled_count =
            length (filter (\<lambda>t. status t \<noteq> ''Reconciled'') (transactions s)),
          auto_matched =
            length (filter (\<lambda>t. unallocated_amount t = 0 \<and> status t \<noteq> ''Reconciled'')
                      (transactions s))\<rparr>\<rparr>"

section \<open>The specification's wording, for comparison\<close>

text \<open>
  The candidate filter as the specification words it (section 4.1): the outstanding amount
  lies within the tolerance of the transaction amount and is strictly positive.
\<close>

definition spec_admits :: "real \<Rightarrow> real \<Rightarrow> invoice \<Rightarrow> bool" where
  "spec_admits tolerance a d =
     (\<bar>outstanding_amount d - a\<bar> \<le> tolerance * a \<and> 0 < outstanding_amount d)"

text \<open>
  A well-formed transaction as the specification's data model words it (section 3): both
  amounts are non-negative and exactly one of the two is nonzero.
\<close>

definition spec_well_formed :: "bank_transaction \<Rightarrow> bool" where
  "spec_well_formed txn =
     (0 \<le> deposit txn \<and> 0 \<le> withdrawal txn \<and> (deposit txn \<noteq> 0) \<noteq> (withdrawal txn \<noteq> 0))"

section \<open>Example inputs\<close>

text \<open>A bank transaction with the given deposit and withdrawal.\<close>

definition example_txn :: "real \<Rightarrow> real \<Rightarrow> bank_transaction" where
  "example_txn dep wd =
     \<lparr>name = ''BT-0001'', date = ''2024-03-01'', description = ''WIRE TRANSFER'',
      deposit = dep, withdrawal = wd, unallocated_amount = dep + wd,
      status = ''Unreconciled'', party_type = [], party = [], reference_number = []\<rparr>"

text \<open>A Purchase Invoice and a Sales Invoice with the given name, grand total and outstanding amount.\<close>

definition payable :: "string \<Rightarrow> real \<Rightarrow> real \<Rightarrow> invoice" where
  "payable n tot out =
     \<lparr>doc_name = n, grand_total = tot, outstanding_amount = out,
      customer = None, supplier = Some ''ACME Parts'', posting_date = ''2024-02-20''\<rparr>"

definition receivable :: "string \<Rightarrow> real \<Rightarrow> real \<Rightarrow> invoice" where
  "receivable n tot out =
     \<lparr>doc_name = n, grand_total = tot, outstanding_amount = out,
      customer = Some ''J. Doe'', supplier = None, posting_date = ''2024-02-20''\<rparr>"


text \<open>A page over the given Sales Invoice and Purchase Invoice tables.\<close>

definition example_page :: "invoice list \<Rightarrow> invoice list \<Rightarrow> system" where
  "example_page sales purchases =
     \<lparr>transactions = [], currentFilter = ''all'', currentTransaction = None,
      match_suggestions = Suggestions [],
      summary_bar = \<lparr>total_deposits = 0, total_withdrawals = 0,
                      unreconciled_count = 0, auto_matched = 0\<rparr>,
      server_transactions = [],
      invoices = (\<lambda>dt. case dt of Sales_Invoice \<Rightarrow> sales | Purchase_Invoice \<Rightarrow> purchases)\<rparr>"

text \<open>
  A server for the examples: it returns every row of the requested table that passes the
  filters of the query, in the table's order.
\<close>

definition answer_all :: "(doctype \<Rightarrow> invoice list) \<Rightarrow> get_list_args \<Rightarrow> invoice list" where
  "answer_all tables args = filter (matches_filters (filters args)) (tables (doctype args))"

text \<open>The double nearest to 3.80, an amount whose product with 1.05 is rounded below 3.99.\<close>

definition amount_3_80 :: real where
  "amount_3_80 = to_double 3.8"

lemmas ex_defs = example_txn_def payable_def receivable_def example_page_def
  amount_def isDeposit_def search_doctype_def

section \<open>Rounding, evaluated\<close>

lemma ulp_exponent_eq:
  assumes "power_int 2 k \<le> \<bar>x\<bar>" and "\<bar>x\<bar> < power_int 2 (k + 1)" and "- 1022 \<le> k"
  shows "ulp_exponent x = k - 52"
proof -
  have pos: "0 < \<bar>x\<bar>"
    using assms(1) by (smt (verit) zero_less_power_int zero_less_numeral)
  have "(2::real) powr (of_int k) = power_int 2 k"
    using powr_real_of_int' [of 2 k] by simp
  moreover have "(2::real) powr (of_int (k + 1)) = power_int 2 (k + 1)"
    using powr_real_of_int' [of 2 "k + 1"] by simp
  ultimately have "\<lfloor>log 2 \<bar>x\<bar>\<rfloor> = k"
    using assms(1,2) pos floor_log_eq_powr_iff [of "\<bar>x\<bar>" 2 k] by simp
  with assms(3) show ?thesis by (simp add: ulp_exponent_def)
qed

lemma to_double_eval:
  assumes "power_int 2 k \<le> \<bar>x\<bar>" and "\<bar>x\<bar> < power_int 2 (k + 1)" and "- 1022 \<le> k"
    and "round_half_even (x / power_int 2 (k - 52)) = m"
  shows "to_double x = of_int m * power_int 2 (k - 52)"
proof -
  have "x \<noteq> 0"
    using assms(1) by (smt (verit) zero_less_power_int zero_less_numeral abs_zero)
  with ulp_exponent_eq [OF assms(1-3)] assms(4) show ?thesis
    by (simp add: to_double_def)
qed

lemma double_0_95: "to_double 0.95 = 4278419646001971 / 4503599627370496"
  by (rule trans [OF to_double_eval [where k = "- 1" and m = 8556839292003942]])
     (simp_all add: power_int_minus round_half_even_def)

lemma double_1_05: "to_double 1.05 = 4728779608739021 / 4503599627370496"
  by (rule trans [OF to_double_eval [where k = 0 and m = 4728779608739021]])
     (simp_all add: power_int_minus round_half_even_def)

lemma double_3_80: "amount_3_80 = 4278419646001971 / 1125899906842624"
  unfolding amount_3_80_def
  by (rule trans [OF to_double_eval [where k = 1 and m = 8556839292003942]])
     (simp_all add: power_int_minus round_half_even_def)

lemma times_0_95_of_0: "times_0_95 0 = 0"
  by (simp add: times_0_95_def js_times_def to_double_def)

lemma times_1_05_of_0: "times_1_05 0 = 0"
  by (simp add: times_1_05_def js_times_def to_double_def)

lemma times_0_95_of_100: "times_0_95 100 = 95"
  unfolding times_0_95_def js_times_def double_0_95
  by (rule trans [OF to_double_eval [where k = 6 and m = 6685030696878080]])
     (simp_all add: power_int_minus round_half_even_def)

lemma times_1_05_of_100: "times_1_05 100 = 105"
  unfolding times_1_05_def js_times_def double_1_05
  by (rule trans [OF to_double_eval [where k = 6 and m = 7388718138654720]])
     (simp_all add: power_int_minus round_half_even_def)

lemma times_0_95_of_3_80: "times_0_95 amount_3_80 = 8128997327403745 / 2251799813685248"
  unfolding times_0_95_def js_times_def double_0_95 double_3_80
  by (rule trans [OF to_double_eval [where k = 1 and m = 8128997327403745]])
     (simp_all add: power_int_minus round_half_even_def)

lemma times_1_05_of_3_80: "times_1_05 amount_3_80 = 8984681256604139 / 2251799813685248"
  unfolding times_1_05_def js_times_def double_1_05 double_3_80
  by (rule trans [OF to_double_eval [where k = 1 and m = 8984681256604139]])
     (simp_all add: power_int_minus round_half_even_def)

lemmas double_products = times_0_95_of_0 times_1_05_of_0 times_0_95_of_100 times_1_05_of_100
  times_0_95_of_3_80 times_1_05_of_3_80

section \<open>Properties of the suggestion lookup\<close>

text \<open>
  What a lookup offers, in one equation: the rows the server returns, in the order
  returned, each rendered as an entry.
\<close>

lemma offered_eq:
  "offered get_list txn s =
     map (render_suggestion (search_doctype txn)) (get_list (invoices s) (suggestion_query txn))"
  by (simp add: offered_def load_match_suggestions_def render_message_def)

lemma offered_docs:
  "map shown_doc (offered get_list txn s) = get_list (invoices s) (suggestion_query txn)"
  by (simp add: offered_eq render_suggestion_def comp_def)

text \<open>What the filters of the query ask of a row, written out.\<close>

lemma query_filters:
  "matches_filters (filters (suggestion_query txn)) d =
     (0 < outstanding_amount d \<and> times_0_95 (amount txn) \<le> grand_total d
      \<and> grand_total d \<le> times_1_05 (amount txn))"
  by (simp add: matches_filters_def suggestion_query_def)

text \<open>The first example server returns exactly the rows of the table that pass the filters.\<close>

lemma answer_all_set:
  "set (answer_all tables args)
     = {d \<in> set (tables (doctype args)). matches_filters (filters args) d}"
  by (auto simp add: answer_all_def)

lemma answer_all_query:
  "answer_all (invoices s) (suggestion_query txn) =
     filter (\<lambda>d. 0 < outstanding_amount d \<and> times_0_95 (amount txn) \<le> grand_total d
                   \<and> grand_total d \<le> times_1_05 (amount txn))
       (invoices s (search_doctype txn))"
proof -
  have "matches_filters (filters (suggestion_query txn)) =
      (\<lambda>d. 0 < outstanding_amount d \<and> times_0_95 (amount txn) \<le> grand_total d
            \<and> grand_total d \<le> times_1_05 (amount txn))"
    by (rule ext) (rule query_filters)
  then show ?thesis
    by (simp add: answer_all_def suggestion_query_def)
qed

text \<open>
  C1, as stated, fails. For a withdrawal of 100 the lookup asks for Purchase Invoices
  with a grand total from 95 to 105 and a positive outstanding amount. A server that
  applies these filters returns the invoice of grand total 100 of which 50 is
  outstanding, although 50 is outside 5% of 100, and does not return the invoice of grand
  total 200 of which 100 is outstanding, although that outstanding amount is exactly the
  transaction amount. The filter bounds the grand total, not the outstanding amount.
\<close>

theorem C1_counterexample:
  "map shown_doc (offered answer_all (example_txn 0 100)
       (example_page [] [payable ''PINV-0001'' 100 50, payable ''PINV-0002'' 200 100]))
     = [payable ''PINV-0001'' 100 50]
   \<and> \<not> spec_admits 0.05 100 (payable ''PINV-0001'' 100 50)
   \<and> spec_admits 0.05 100 (payable ''PINV-0002'' 200 100)"
  unfolding offered_docs answer_all_query
  by (simp add: ex_defs double_products spec_admits_def)

text \<open>
  C1, amended. The filters the lookup sends ask for a strictly positive outstanding amount
  and for a grand total between the double-precision products \<^verbatim>\<open>amount * 0.95\<close> and
  \<^verbatim>\<open>amount * 1.05\<close>; and the lookup offers exactly the rows the server returns. So with
  a server that returns only rows of the searched table that pass the filters it is sent,
  every offered document has a positive outstanding amount and a grand total between
  those two doubles; and with a server that returns all such rows, the offered documents
  are exactly those.
\<close>

theorem C1_filter:
  "(matches_filters (filters (suggestion_query txn)) d
      \<longleftrightarrow> 0 < outstanding_amount d \<and> times_0_95 (amount txn) \<le> grand_total d
          \<and> grand_total d \<le> times_1_05 (amount txn))
   \<and> set (map shown_doc (offered get_list txn s))
       = set (get_list (invoices s) (suggestion_query txn))
   \<and> (set (get_list (invoices s) (suggestion_query txn))
         \<subseteq> {d \<in> set (invoices s (search_doctype txn)).
              matches_filters (filters (suggestion_query txn)) d}
       \<longrightarrow> set (map shown_doc (offered get_list txn s))
             \<subseteq> {d \<in> set (invoices s (search_doctype txn)).
                  0 < outstanding_amount d \<and> times_0_95 (amount txn) \<le> grand_total d
                  \<and> grand_total d \<le> times_1_05 (amount txn)})
   \<and> (set (get_list (invoices s) (suggestion_query txn))
         = {d \<in> set (invoices s (search_doctype txn)).
              matches_filters (filters (suggestion_query txn)) d}
       \<longrightarrow> set (map shown_doc (offered get_list txn s))
             = {d \<in> set (invoices s (search_doctype txn)).
                  0 < outstanding_amount d \<and> times_0_95 (amount txn) \<le> grand_total d
                  \<and> grand_total d \<le> times_1_05 (amount txn)})"
  unfolding offered_docs query_filters by simp

text \<open>
  C1, witness: a withdrawal of 3.80 against Purchase Invoices of 3.99 and of 3.80, with a
  server that returns all rows passing the filters. The upper bound the page computes,
  3.80 times 1.05 in doubles, is below 3.99, so only the invoice of 3.80 is offered.
\<close>

theorem C1_filter_witness:
  "set (answer_all (invoices (example_page [] [payable ''PINV-0399'' 3.99 3.99,
                                               payable ''PINV-0380'' 3.8 3.8]))
          (suggestion_query (example_txn 0 amount_3_80)))
     = {d \<in> set (invoices (example_page [] [payable ''PINV-0399'' 3.99 3.99,
                                            payable ''PINV-0380'' 3.8 3.8])
                   (search_doctype (example_txn 0 amount_3_80))).
          matches_filters (filters (suggestion_query (example_txn 0 amount_3_80))) d}
   \<and> times_1_05 (amount (example_txn 0 amount_3_80)) < 3.99
   \<and> set (map shown_doc (offered answer_all (example_txn 0 amount_3_80)
             (example_page [] [payable ''PINV-0399'' 3.99 3.99, payable ''PINV-0380'' 3.8 3.8])))
       = {payable ''PINV-0380'' 3.8 3.8}"
proof -
  let ?s = "example_page [] [payable ''PINV-0399'' 3.99 3.99, payable ''PINV-0380'' 3.8 3.8]"
  let ?t = "example_txn 0 amount_3_80"
  have a: "amount ?t = amount_3_80"
    by (simp add: ex_defs)
  have h: "set (answer_all (invoices ?s) (suggestion_query ?t))
      = {d \<in> set (invoices ?s (search_doctype ?t)).
           matches_filters (filters (suggestion_query ?t)) d}"
    by (simp add: answer_all_set suggestion_query_def)
  have b: "times_1_05 (amount ?t) < 3.99"
    unfolding a times_1_05_of_3_80 by simp
  have c: "{d \<in> set (invoices ?s (search_doctype ?t)).
             0 < outstanding_amount d \<and> times_0_95 (amount ?t) \<le> grand_total d
             \<and> grand_total d \<le> times_1_05 (amount ?t)} = {payable ''PINV-0380'' 3.8 3.8}"
    unfolding a times_1_05_of_3_80 times_0_95_of_3_80
    by (auto simp add: example_page_def payable_def search_doctype_def isDeposit_def
        example_txn_def)
  note r = C1_filter [of ?t "payable ''PINV-0380'' 3.8 3.8" answer_all ?s,
      THEN conjunct2, THEN conjunct2, THEN conjunct2, THEN mp, OF h]
  have r': "set (map shown_doc (offered answer_all ?t ?s)) = {payable ''PINV-0380'' 3.8 3.8}"
    using r c by (rule trans)
  from h b r' show ?thesis by (intro conjI)
qed

text \<open>
  C2, as stated, fails. A transaction with deposit 100 and withdrawal 50 is looked up as a
  deposit of 100 and is offered a Sales Invoice; a transaction with both amounts zero is
  looked up as a withdrawal of 0 and gets the empty notice. Neither lookup fails.
\<close>

theorem C2_counterexample:
  "load_match_suggestions answer_all (example_txn 100 50)
       (example_page [receivable ''SINV-0001'' 100 100] [payable ''PINV-0001'' 50 50])
     = Inr ((example_page [receivable ''SINV-0001'' 100 100] [payable ''PINV-0001'' 50 50])
             \<lparr>match_suggestions :=
                Suggestions [render_suggestion Sales_Invoice (receivable ''SINV-0001'' 100 100)]\<rparr>)
   \<and> load_match_suggestions answer_all (example_txn 0 0)
       (example_page [receivable ''SINV-0001'' 100 100] [payable ''PINV-0001'' 50 50])
     = Inr ((example_page [receivable ''SINV-0001'' 100 100] [payable ''PINV-0001'' 50 50])
             \<lparr>match_suggestions := No_matching_documents\<rparr>)"
  unfolding load_match_suggestions_def answer_all_query
  by (simp add: render_message_def ex_defs double_products)

text \<open>
  C2, amended. A lookup never fails. It searches Sales Invoices for the deposit amount
  when the deposit is positive, and Purchase Invoices for the withdrawal amount otherwise;
  so for a well-formed transaction it searches the receivable documents when the deposit
  is nonzero and the payable documents when the withdrawal is nonzero.
\<close>

theorem C2_direction:
  "(\<exists>s'. load_match_suggestions get_list txn s = Inr s')
   \<and> (0 < deposit txn \<longrightarrow>
        doctype (suggestion_query txn) = Sales_Invoice \<and> amount txn = deposit txn)
   \<and> (\<not> 0 < deposit txn \<longrightarrow>
        doctype (suggestion_query txn) = Purchase_Invoice \<and> amount txn = withdrawal txn)
   \<and> (spec_well_formed txn \<longrightarrow>
        (deposit txn \<noteq> 0 \<longrightarrow>
           doctype (suggestion_query txn) = Sales_Invoice \<and> amount txn = deposit txn)
        \<and> (withdrawal txn \<noteq> 0 \<longrightarrow>
           doctype (suggestion_query txn) = Purchase_Invoice \<and> amount txn = withdrawal txn))"
  by (auto simp add: load_match_suggestions_def suggestion_query_def search_doctype_def
      amount_def isDeposit_def spec_well_formed_def)

text \<open>
  C2, witness: a well-formed deposit of 100 is searched among Sales Invoices and a
  well-formed withdrawal of 100 among Purchase Invoices, each for the amount 100.
\<close>

theorem C2_direction_witness:
  "spec_well_formed (example_txn 100 0) \<and> deposit (example_txn 100 0) \<noteq> 0
   \<and> doctype (suggestion_query (example_txn 100 0)) = Sales_Invoice
   \<and> amount (example_txn 100 0) = 100
   \<and> spec_well_formed (example_txn 0 100) \<and> withdrawal (example_txn 0 100) \<noteq> 0
   \<and> \<not> 0 < deposit (example_txn 0 100)
   \<and> doctype (suggestion_query (example_txn 0 100)) = Purchase_Invoice
   \<and> amount (example_txn 0 100) = 100"
proof -
  have w1: "spec_well_formed (example_txn 100 0)" and w2: "spec_well_formed (example_txn 0 100)"
    by (simp_all add: spec_well_formed_def example_txn_def)
  have d1: "deposit (example_txn 100 0) \<noteq> 0" and d2: "withdrawal (example_txn 0 100) \<noteq> 0"
    and d3: "\<not> 0 < deposit (example_txn 0 100)" and d4: "deposit (example_txn 100 0) = 100"
    and d5: "withdrawal (example_txn 0 100) = 100"
    by (simp_all add: example_txn_def)
  from C2_direction [of answer_all "example_txn 100 0" "example_page [] []"] w1 d1 d4
  have a: "doctype (suggestion_query (example_txn 100 0)) = Sales_Invoice
      \<and> amount (example_txn 100 0) = 100" by simp
  from C2_direction [of answer_all "example_txn 0 100" "example_page [] []"] w2 d2 d5
  have b: "doctype (suggestion_query (example_txn 0 100)) = Purchase_Invoice
      \<and> amount (example_txn 0 100) = 100" by simp
  from a b w1 w2 d1 d2 d3 show ?thesis by simp
qed

text \<open>
  C3, as stated, fails. For a withdrawal of 100, when the server returns the Purchase
  Invoice of 95 before the invoice of 100, the lookup offers the 95 first and the 100
  second, although the 100 is the closer amount.
\<close>

theorem C3_counterexample:
  "map data_name (offered answer_all (example_txn 0 100)
       (example_page [] [payable ''PINV-0095'' 95 95, payable ''PINV-0100'' 100 100]))
     = [''PINV-0095'', ''PINV-0100'']
   \<and> \<bar>outstanding_amount (payable ''PINV-0100'' 100 100) - amount (example_txn 0 100)\<bar>
     < \<bar>outstanding_amount (payable ''PINV-0095'' 95 95) - amount (example_txn 0 100)\<bar>"
  unfolding offered_eq answer_all_query
  by (simp add: ex_defs double_products render_suggestion_def)

text \<open>
  C3, amended. The proposals come in the order in which the server returns the rows: the
  query asks for no order, and the lookup renders one entry per returned row, in the order
  received, sorting nothing, neither by amount difference nor by posting date nor by
  identifier.
\<close>

theorem C3_server_order:
  "order_by (suggestion_query txn) = None
   \<and> offered get_list txn s
       = map (render_suggestion (search_doctype txn))
           (get_list (invoices s) (suggestion_query txn))
   \<and> map shown_doc (offered get_list txn s) = get_list (invoices s) (suggestion_query txn)
   \<and> map data_name (offered get_list txn s)
       = map doc_name (get_list (invoices s) (suggestion_query txn))"
  by (simp add: offered_eq suggestion_query_def render_suggestion_def comp_def)

text \<open>
  C5, as stated, fails. A withdrawal of 100 against a sole Purchase Invoice of which 80 is
  outstanding does not yield an empty sequence when the invoice's grand total is 100: the
  outstanding amount is outside 5% of 100, and the invoice passes the filters sent and is
  offered all the same.
\<close>

theorem C5_counterexample:
  "offered answer_all (example_txn 0 100) (example_page [] [payable ''PINV-0080'' 100 80])
     = [render_suggestion Purchase_Invoice (payable ''PINV-0080'' 100 80)]
   \<and> outstanding_amount (payable ''PINV-0080'' 100 80) = 80
   \<and> \<not> spec_admits 0.05 (amount (example_txn 0 100)) (payable ''PINV-0080'' 100 80)"
  unfolding offered_eq answer_all_query
  by (simp add: ex_defs double_products spec_admits_def)

text \<open>
  C5, amended. When no row of the searched table has a positive outstanding amount and a
  grand total between the two bounds the page computes, and the server returns only rows
  of that table that pass the filters it is sent, the lookup returns normally: it shows
  the empty notice and offers nothing.
\<close>

theorem C5_empty_is_normal:
  assumes "set (get_list (invoices s) (suggestion_query txn))
             \<subseteq> {d \<in> set (invoices s (search_doctype txn)).
                  matches_filters (filters (suggestion_query txn)) d}"
    and "filter (\<lambda>d. 0 < outstanding_amount d \<and> times_0_95 (amount txn) \<le> grand_total d
                      \<and> grand_total d \<le> times_1_05 (amount txn))
           (invoices s (search_doctype txn)) = []"
  shows "load_match_suggestions get_list txn s
           = Inr (s\<lparr>match_suggestions := No_matching_documents\<rparr>)
         \<and> offered get_list txn s = []"
proof -
  from assms(2) have "{d \<in> set (invoices s (search_doctype txn)).
      matches_filters (filters (suggestion_query txn)) d} = {}"
    unfolding query_filters by (auto simp add: filter_empty_conv)
  with assms(1) have e: "get_list (invoices s) (suggestion_query txn) = []"
    by simp
  then have "load_match_suggestions get_list txn s
      = Inr (s\<lparr>match_suggestions := No_matching_documents\<rparr>)"
    by (simp add: load_match_suggestions_def render_message_def)
  moreover have "offered get_list txn s = []"
    using e by (simp add: offered_eq)
  ultimately show ?thesis by simp
qed

text \<open>
  C5, witness: a withdrawal of 100 against a sole Purchase Invoice of grand total 80, all
  of it outstanding: the empty notice, nothing offered, no error.
\<close>

theorem C5_empty_is_normal_witness:
  "load_match_suggestions answer_all (example_txn 0 100)
       (example_page [] [payable ''PINV-0080'' 80 80])
     = Inr ((example_page [] [payable ''PINV-0080'' 80 80])
              \<lparr>match_suggestions := No_matching_documents\<rparr>)
   \<and> offered answer_all (example_txn 0 100) (example_page [] [payable ''PINV-0080'' 80 80]) = []"
proof -
  let ?s = "example_page [] [payable ''PINV-0080'' 80 80]"
  let ?t = "example_txn 0 100"
  have g: "set (answer_all (invoices ?s) (suggestion_query ?t))
      \<subseteq> {d \<in> set (invoices ?s (search_doctype ?t)).
           matches_filters (filters (suggestion_query ?t)) d}"
    by (simp add: answer_all_set suggestion_query_def)
  have a: "amount ?t = 100"
    by (simp add: ex_defs)
  have h: "filter (\<lambda>d. 0 < outstanding_amount d \<and> times_0_95 (amount ?t) \<le> grand_total d
                        \<and> grand_total d \<le> times_1_05 (amount ?t))
             (invoices ?s (search_doctype ?t)) = []"
    unfolding a double_products by (simp add: ex_defs)
  show ?thesis
    by (rule C5_empty_is_normal [where get_list = answer_all and s = ?s and txn = ?t, OF g h])
qed



text \<open>
  C8. The lookup is a query. It returns normally and delivers its result into the
  suggestions panel; the page's transaction list, its current transaction, its tab filter
  and its summary bar, and the server's Bank Transaction rows and invoice tables are the
  same after the lookup as before.
\<close>

theorem C8_pure_query:
  "\<exists>s'. load_match_suggestions get_list txn s = Inr s'
     \<and> transactions s' = transactions s
     \<and> currentTransaction s' = currentTransaction s
     \<and> currentFilter s' = currentFilter s
     \<and> summary_bar s' = summary_bar s
     \<and> server_transactions s' = server_transactions s
     \<and> invoices s' = invoices s"
  by (simp add: load_match_suggestions_def)



section \<open>Properties of the summary bar\<close>

text \<open>
  C10. After \<^verbatim>\<open>update_summary\<close> the Auto-Matched count never exceeds the Unreconciled
  count: the transactions counted as auto-matched (unallocated amount zero, status not
  Reconciled) are among those counted as unreconciled (status not Reconciled).
\<close>

theorem C10_auto_matched_le_unreconciled:
  "auto_matched (summary_bar (update_summary s))
     \<le> unreconciled_count (summary_bar (update_summary s))
   \<and> set (filter (\<lambda>t. unallocated_amount t = 0 \<and> status t \<noteq> ''Reconciled'') (transactions s))
     \<subseteq> set (filter (\<lambda>t. status t \<noteq> ''Reconciled'') (transactions s))"
proof -
  have "filter (\<lambda>t. unallocated_amount t = 0 \<and> status t \<noteq> ''Reconciled'') (transactions s)
      = filter (\<lambda>t. unallocated_amount t = 0)
          (filter (\<lambda>t. status t \<noteq> ''Reconciled'') (transactions s))"
    by (simp add: conj_commute)
  then have "length (filter (\<lambda>t. unallocated_amount t = 0 \<and> status t \<noteq> ''Reconciled'')
                       (transactions s))
      \<le> length (filter (\<lambda>t. status t \<noteq> ''Reconciled'') (transactions s))"
    by (simp only: length_filter_le)
  then show ?thesis by (auto simp add: update_summary_def)
qed

section \<open>Properties of the badges and of a manual match\<close>




end
